theory Spec2Isabelle
  imports Main "HOL-Library.Word"
begin

unbundle bit_operations_syntax

section \<open>Data model of mm.c\<close>

text \<open>
  The allocator works on one flat region of memory through \<open>size_t\<close> reads and writes
  at computed byte addresses.  Addresses and stored values are 64-bit words; the memory
  maps a byte address to the word stored there.  The four file-level pointers of mm.c
  are fields of the state, together with the break and the upper limit of the backing
  region.
\<close>

record heap_state =
  mem :: "64 word \<Rightarrow> 64 word"
  heap_start :: "64 word"
  free_start :: "64 word"
  heap_prologue :: "64 word"
  heap_epilogue :: "64 word"
  mem_brk :: "64 word"
  mem_max_addr :: "64 word"

definition WSIZE :: "64 word" where "WSIZE = 8"
definition DWORD :: "64 word" where "DWORD = 16"
definition CHUNKSIZE :: "64 word" where "CHUNKSIZE = push_bit 8 1"
definition MAX_LISTS :: nat where "MAX_LISTS = 16"

definition PACK :: "64 word \<Rightarrow> 64 word \<Rightarrow> 64 word \<Rightarrow> 64 word" where
  "PACK sz prev_alloc alloc = sz OR prev_alloc OR alloc"

definition GET :: "heap_state \<Rightarrow> 64 word \<Rightarrow> 64 word" where
  "GET s p = mem s p"

definition PUT :: "heap_state \<Rightarrow> 64 word \<Rightarrow> 64 word \<Rightarrow> heap_state" where
  "PUT s p val = s\<lparr>mem := (mem s)(p := val)\<rparr>"

definition GET_SIZE :: "heap_state \<Rightarrow> 64 word \<Rightarrow> 64 word" where
  "GET_SIZE s p = GET s p AND NOT 7"

definition GET_PREV_ALLOC :: "heap_state \<Rightarrow> 64 word \<Rightarrow> 64 word" where
  "GET_PREV_ALLOC s p = GET s p AND 2"

definition GET_ALLOC :: "heap_state \<Rightarrow> 64 word \<Rightarrow> 64 word" where
  "GET_ALLOC s p = GET s p AND 1"

definition NEXT_ADDRESS :: "64 word \<Rightarrow> 64 word" where
  "NEXT_ADDRESS ptr = ptr"

definition PREV_ADDRESS :: "64 word \<Rightarrow> 64 word" where
  "PREV_ADDRESS ptr = ptr + WSIZE"

definition HDRP :: "64 word \<Rightarrow> 64 word" where
  "HDRP ptr = ptr - WSIZE"

definition FTRP :: "heap_state \<Rightarrow> 64 word \<Rightarrow> 64 word" where
  "FTRP s ptr = ptr + GET_SIZE s (HDRP ptr) - DWORD"

definition NEXT_BLOCK :: "heap_state \<Rightarrow> 64 word \<Rightarrow> 64 word" where
  "NEXT_BLOCK s ptr = ptr + GET_SIZE s (ptr - WSIZE)"

definition PREV_BLOCK :: "heap_state \<Rightarrow> 64 word \<Rightarrow> 64 word" where
  "PREV_BLOCK s ptr = ptr - GET_SIZE s (ptr - DWORD)"

definition NEXT_FLIST_ADDRESS :: "heap_state \<Rightarrow> 64 word \<Rightarrow> 64 word" where
  "NEXT_FLIST_ADDRESS s ptr = GET s ptr"

definition PREV_FLIST_ADDRESS :: "heap_state \<Rightarrow> 64 word \<Rightarrow> 64 word" where
  "PREV_FLIST_ADDRESS s ptr = GET s (PREV_ADDRESS ptr)"

definition GET_ROOT :: "heap_state \<Rightarrow> 64 word \<Rightarrow> nat \<Rightarrow> 64 word" where
  "GET_ROOT s heap list = GET s (heap + of_nat list * WSIZE)"

definition SET_ROOT :: "heap_state \<Rightarrow> 64 word \<Rightarrow> nat \<Rightarrow> 64 word \<Rightarrow> heap_state" where
  "SET_ROOT s heap list new_root = PUT s (heap + of_nat list * WSIZE) new_root"

section \<open>The backing region\<close>

text \<open>
  Modelled from the spec: \<open>mem_sbrk\<close> of memlib, which is not part of the source file.
  It grows the region by \<open>incr\<close> bytes and returns the old break, or refuses and
  returns \<open>-1\<close>, leaving everything as it was.  It refuses exactly when the new break
  would pass the limit of the region.
\<close>

definition mem_sbrk :: "heap_state \<Rightarrow> 64 word \<Rightarrow> 64 word \<times> heap_state" where
  "mem_sbrk s incr =
     (if uint (mem_max_addr s) < uint (mem_brk s) + uint incr then (- 1, s)
      else (mem_brk s, s\<lparr>mem_brk := mem_brk s + incr\<rparr>))"

text \<open>
  \<open>memcpy\<close> of the C library: the \<open>n\<close> bytes from \<open>src\<close> are read before any is
  written.  The model is total.  A copy that reads or writes beyond the region, which
  faults or is undefined in C, is a plain copy here, and so is a copy between
  overlapping ranges, which C leaves undefined; a statement about a state after such a
  copy says nothing about the program.
\<close>

definition memcpy :: "heap_state \<Rightarrow> 64 word \<Rightarrow> 64 word \<Rightarrow> 64 word \<Rightarrow> heap_state" where
  "memcpy s dst src n =
     s\<lparr>mem := (\<lambda>a. if a - dst < n then mem s (src + (a - dst)) else mem s a)\<rparr>"

section \<open>Size classes\<close>

function get_list_loop :: "64 word \<Rightarrow> nat \<Rightarrow> nat" where
  "get_list_loop sz list_check =
     (if sz > 0 \<and> list_check < MAX_LISTS - 1
      then get_list_loop (sz AND NOT (push_bit list_check 1)) (list_check + 1)
      else list_check)"
  by pat_completeness auto
termination
  by (relation "measure (\<lambda>(sz, list_check). MAX_LISTS - list_check)") auto

declare get_list_loop.simps [simp del]

definition get_list :: "64 word \<Rightarrow> nat" where
  "get_list sz = get_list_loop sz 0"

text \<open>The closed form of the specification, written from its words.\<close>

fun highest_set_bit_index :: "nat \<Rightarrow> nat" where
  "highest_set_bit_index n = (if n < 2 then 0 else Suc (highest_set_bit_index (n div 2)))"

declare highest_set_bit_index.simps [simp del]

definition classify :: "nat \<Rightarrow> nat" where
  "classify n = min (highest_set_bit_index n + 1) (MAX_LISTS - 1)"

section \<open>The free lists\<close>

definition remove_block :: "heap_state \<Rightarrow> 64 word \<Rightarrow> heap_state" where
  "remove_block s ptr =
     (let list_num = get_list (GET_SIZE s (HDRP ptr));
          prev_node = PREV_FLIST_ADDRESS s ptr;
          next_node = NEXT_FLIST_ADDRESS s ptr;
          s1 = (if prev_node = 0 \<and> next_node = 0 then
                  SET_ROOT s (free_start s) list_num 0
                else if next_node = 0 then
                  PUT s (NEXT_ADDRESS prev_node) 0
                else if prev_node = 0 then
                  PUT (SET_ROOT s (free_start s) list_num next_node) (PREV_ADDRESS next_node) 0
                else
                  PUT (PUT s (PREV_ADDRESS next_node) prev_node) (NEXT_ADDRESS prev_node) next_node)
      in PUT (PUT s1 (PREV_ADDRESS ptr) 0) (NEXT_ADDRESS ptr) 0)"

text \<open>
  The walk of \<open>add_block\<close> follows the links of the list; on a list that loops back on
  itself it never ends, which is the value \<open>None\<close>.
\<close>

partial_function (option) add_block_walk :: "heap_state \<Rightarrow> 64 word \<Rightarrow> 64 word \<Rightarrow> 64 word option" where
  "add_block_walk s new_ptr root_trace =
     (if root_trace < new_ptr \<and> NEXT_FLIST_ADDRESS s root_trace \<noteq> 0
      then add_block_walk s new_ptr (NEXT_FLIST_ADDRESS s root_trace)
      else Some root_trace)"

declare add_block_walk.simps [code]

definition add_block :: "heap_state \<Rightarrow> 64 word \<Rightarrow> heap_state option" where
  "add_block s ptr =
     (let list_num = get_list (GET_SIZE s (HDRP ptr));
          new_ptr = ptr;
          s1 = PUT (PUT s (NEXT_ADDRESS ptr) 0) (PREV_ADDRESS ptr) 0;
          root_trace = GET_ROOT s1 (free_start s1) list_num
      in if root_trace = 0 then
           Some (SET_ROOT s1 (free_start s1) list_num ptr)
         else if root_trace > new_ptr then
           Some (PUT (PUT (SET_ROOT s1 (free_start s1) list_num ptr)
                   (NEXT_ADDRESS ptr) root_trace) (PREV_ADDRESS root_trace) ptr)
         else if NEXT_FLIST_ADDRESS s1 root_trace = 0 then
           Some (PUT (PUT s1 (NEXT_ADDRESS root_trace) ptr) (PREV_ADDRESS ptr) root_trace)
         else
           (case add_block_walk s1 new_ptr root_trace of
              None \<Rightarrow> None
            | Some root_trace \<Rightarrow>
                (let next = NEXT_FLIST_ADDRESS s1 root_trace;
                     prev = PREV_FLIST_ADDRESS s1 root_trace
                 in if next = 0 then
                      (if new_ptr \<le> root_trace then
                         Some (PUT (PUT (PUT (PUT s1 (PREV_ADDRESS root_trace) new_ptr)
                                 (NEXT_ADDRESS new_ptr) root_trace)
                                 (PREV_ADDRESS new_ptr) prev)
                                 (NEXT_ADDRESS prev) new_ptr)
                       else
                         Some (PUT (PUT s1 (NEXT_ADDRESS root_trace) new_ptr)
                                 (PREV_ADDRESS new_ptr) root_trace))
                    else
                      Some (PUT (PUT (PUT (PUT s1 (NEXT_ADDRESS new_ptr) root_trace)
                              (PREV_ADDRESS new_ptr) prev)
                              (NEXT_ADDRESS prev) new_ptr)
                              (PREV_ADDRESS root_trace) new_ptr))))"

section \<open>Coalescing\<close>

definition coalesce :: "heap_state \<Rightarrow> 64 word \<Rightarrow> (64 word \<times> heap_state) option" where
  "coalesce s ptr =
     (let prev_block_alloc = GET_PREV_ALLOC s (HDRP ptr);
          next_block = NEXT_BLOCK s ptr;
          next_block_alloc = GET_ALLOC s (HDRP next_block);
          ptr_size = GET_SIZE s (HDRP ptr)
      in if prev_block_alloc \<noteq> 0 \<and> next_block_alloc = 0 then
           (let ptr_size = ptr_size + GET_SIZE s (HDRP next_block);
                s1 = remove_block s next_block;
                s2 = PUT s1 (HDRP ptr) (PACK ptr_size 2 0);
                s3 = PUT s2 (FTRP s2 ptr) (PACK ptr_size 2 0)
            in map_option (Pair ptr) (add_block s3 ptr))
         else if prev_block_alloc = 0 \<and> next_block_alloc \<noteq> 0 then
           (let prev_block = PREV_BLOCK s ptr;
                other_block_size = GET_SIZE s (HDRP prev_block);
                ptr_size = ptr_size + other_block_size;
                list_num = get_list other_block_size
            in if push_bit list_num 1 \<le> ptr_size then
                 (let s1 = remove_block s prev_block;
                      ptr = prev_block;
                      s2 = PUT s1 (HDRP ptr) (PACK ptr_size 2 0);
                      s3 = PUT s2 (FTRP s2 ptr) (PACK ptr_size 2 0)
                  in map_option (Pair ptr) (add_block s3 ptr))
               else
                 (let ptr = prev_block;
                      s2 = PUT s (HDRP ptr) (PACK ptr_size 2 0);
                      s3 = PUT s2 (FTRP s2 ptr) (PACK ptr_size 2 0)
                  in Some (ptr, s3)))
         else if prev_block_alloc \<noteq> 0 \<and> next_block_alloc \<noteq> 0 then
           map_option (Pair ptr) (add_block s ptr)
         else
           (let prev_block = PREV_BLOCK s ptr;
                s1 = remove_block s next_block;
                ptr_size = ptr_size + (GET_SIZE s1 (HDRP prev_block) + GET_SIZE s1 (HDRP next_block));
                list_num = get_list (GET_SIZE s1 (HDRP prev_block))
            in if push_bit list_num 1 > ptr_size then
                 (let ptr = prev_block;
                      s2 = PUT s1 (HDRP ptr) (PACK ptr_size 2 0);
                      s3 = PUT s2 (FTRP s2 ptr) (PACK ptr_size 2 0)
                  in Some (ptr, s3))
               else
                 (let s1' = remove_block s1 prev_block;
                      ptr = prev_block;
                      s2 = PUT s1' (HDRP ptr) (PACK ptr_size 2 0);
                      s3 = PUT s2 (FTRP s2 ptr) (PACK ptr_size 2 0)
                  in map_option (Pair ptr) (add_block s3 ptr))))"

section \<open>Heap extension, fit search and placement\<close>

text \<open>A result pointer \<open>0\<close> is the C \<open>NULL\<close>.\<close>

text \<open>The byte count \<open>extend_heap\<close> asks for: an even number of words.\<close>

definition extend_bytes :: "64 word \<Rightarrow> 64 word" where
  "extend_bytes words = (if words mod 2 \<noteq> 0 then (words + 1) * WSIZE else words * WSIZE)"

definition extend_heap :: "heap_state \<Rightarrow> 64 word \<Rightarrow> (64 word \<times> heap_state) option" where
  "extend_heap s words =
     (let sz = extend_bytes words;
          end_alloc = GET_PREV_ALLOC s (heap_epilogue s);
          (ptr, s1) = mem_sbrk s sz
      in if ptr = - 1 then Some (0, s1)
         else
           (let s2 = PUT s1 (HDRP ptr) (PACK sz end_alloc 0);
                s3 = PUT s2 (FTRP s2 ptr) (PACK sz end_alloc 0);
                s4 = PUT s3 (HDRP (NEXT_BLOCK s3 ptr)) (PACK 0 0 1);
                s5 = s4\<lparr>heap_epilogue := HDRP (NEXT_BLOCK s4 ptr)\<rparr>
            in if end_alloc \<noteq> 0 then map_option (Pair ptr) (add_block s5 ptr)
               else coalesce s5 ptr))"

partial_function (option) find_fit_scan :: "heap_state \<Rightarrow> 64 word \<Rightarrow> 64 word \<Rightarrow> 64 word option" where
  "find_fit_scan s sz ptr =
     (if ptr \<noteq> 0 then
        (if sz \<le> GET_SIZE s (HDRP ptr) then Some ptr
         else find_fit_scan s sz (NEXT_FLIST_ADDRESS s ptr))
      else Some 0)"

declare find_fit_scan.simps [code]

function find_fit_lists :: "heap_state \<Rightarrow> 64 word \<Rightarrow> nat \<Rightarrow> 64 word option" where
  "find_fit_lists s sz list_num =
     (if list_num < MAX_LISTS then
        (case find_fit_scan s sz (GET_ROOT s (free_start s) list_num) of
           None \<Rightarrow> None
         | Some ptr \<Rightarrow> if ptr \<noteq> 0 then Some ptr else find_fit_lists s sz (list_num + 1))
      else Some 0)"
  by pat_completeness auto
termination
  by (relation "measure (\<lambda>(s, sz, list_num). MAX_LISTS - list_num)") auto

declare find_fit_lists.simps [simp del]

definition find_fit :: "heap_state \<Rightarrow> 64 word \<Rightarrow> 64 word option" where
  "find_fit s sz = find_fit_lists s sz (get_list sz)"

definition place :: "heap_state \<Rightarrow> 64 word \<Rightarrow> 64 word \<Rightarrow> (64 word \<times> heap_state) option" where
  "place s ptr sz =
     (let next_block = NEXT_BLOCK s ptr;
          next_block_size = GET_SIZE s (HDRP next_block);
          old_size = GET_SIZE s (HDRP ptr);
          frag_count = old_size - sz;
          s1 = remove_block s ptr
      in if frag_count > push_bit 6 1 then
           (let s2 = PUT s1 (HDRP next_block) (PACK next_block_size 0 1);
                s3 = PUT s2 (HDRP ptr) (PACK sz 2 1);
                split_block = NEXT_BLOCK s3 ptr;
                s4 = PUT s3 (HDRP split_block) (PACK frag_count 2 0);
                s5 = PUT s4 (FTRP s4 split_block) (PACK frag_count 2 0)
            in map_option (Pair ptr) (add_block s5 split_block))
         else
           (let s2 = PUT s1 (HDRP next_block) (PACK next_block_size 2 1);
                s3 = PUT s2 (HDRP ptr) (PACK old_size 2 1)
            in Some (ptr, s3)))"

section \<open>The public operations\<close>

function mm_init_loop :: "heap_state \<Rightarrow> nat \<Rightarrow> heap_state" where
  "mm_init_loop s i =
     (if i < MAX_LISTS then mm_init_loop (PUT s (free_start s + of_nat i * WSIZE) 0) (i + 1)
      else s)"
  by pat_completeness auto
termination
  by (relation "measure (\<lambda>(s, i). MAX_LISTS - i)") auto

declare mm_init_loop.simps [simp del]

definition mm_init :: "heap_state \<Rightarrow> (int \<times> heap_state) option" where
  "mm_init s =
     (let (p, s1) = mem_sbrk s (of_nat (MAX_LISTS + 3) * WSIZE);
          s2 = s1\<lparr>heap_prologue := p\<rparr>
      in if p = - 1 then Some (- 1, s2)
         else
           (let s3 = s2\<lparr>free_start := heap_prologue s2\<rparr>;
                s4 = s3\<lparr>heap_prologue := heap_prologue s3 + of_nat (MAX_LISTS + 1) * WSIZE\<rparr>;
                s5 = mm_init_loop s4 0;
                s6 = PUT s5 (HDRP (heap_prologue s5)) (PACK DWORD 2 1);
                s7 = PUT s6 (FTRP s6 (heap_prologue s6)) (PACK DWORD 2 1);
                s8 = s7\<lparr>heap_epilogue := HDRP (NEXT_BLOCK s7 (heap_prologue s7))\<rparr>;
                s9 = PUT s8 (heap_epilogue s8) (PACK 0 2 1)
            in case extend_heap s9 (CHUNKSIZE div WSIZE) of
                 None \<Rightarrow> None
               | Some (r, s10) \<Rightarrow>
                   (let s11 = s10\<lparr>heap_start := r\<rparr>
                    in if r = 0 then Some (- 1, s11) else Some (0, s11))))"

text \<open>The rounding of a request to a block size, as both \<open>mm_malloc\<close> and \<open>mm_realloc\<close> do it.\<close>

definition round_size :: "64 word \<Rightarrow> 64 word" where
  "round_size sz = (if sz \<le> 32 then 2 * 32 else DWORD * ((sz + DWORD + (DWORD - 1)) div DWORD))"

definition mm_malloc :: "heap_state \<Rightarrow> 64 word \<Rightarrow> (64 word \<times> heap_state) option" where
  "mm_malloc s sz =
     (if sz = 0 then Some (0, s)
      else
        (let sz = round_size sz
         in case find_fit s sz of
              None \<Rightarrow> None
            | Some ptr \<Rightarrow>
                if ptr \<noteq> 0 then
                  (case place s ptr sz of None \<Rightarrow> None | Some (r, s1) \<Rightarrow> Some (ptr, s1))
                else
                  (let extend_size = max sz CHUNKSIZE
                   in case extend_heap s (extend_size div WSIZE) of
                        None \<Rightarrow> None
                      | Some (ptr, s1) \<Rightarrow>
                          if ptr = 0 then Some (0, s1)
                          else (case place s1 ptr sz of
                                  None \<Rightarrow> None
                                | Some (r, s2) \<Rightarrow> Some (ptr, s2)))))"

definition mm_free :: "heap_state \<Rightarrow> 64 word \<Rightarrow> heap_state option" where
  "mm_free s ptr =
     (let ptr_size = GET_SIZE s (HDRP ptr);
          next_block = NEXT_BLOCK s ptr;
          prev_block_alloc = GET_PREV_ALLOC s (HDRP ptr);
          next_block_size = GET_SIZE s (HDRP next_block);
          next_block_alloc = GET_ALLOC s (HDRP next_block);
          s1 = PUT s (HDRP ptr) (PACK ptr_size prev_block_alloc 0);
          s2 = PUT s1 (FTRP s1 ptr) (PACK ptr_size prev_block_alloc 0);
          s3 = PUT s2 (HDRP next_block) (PACK next_block_size 0 next_block_alloc);
          s4 = (if next_block_alloc = 0
                then PUT s3 (FTRP s3 next_block) (PACK next_block_size 0 0) else s3)
      in map_option snd (coalesce s4 ptr))"

definition mm_realloc :: "heap_state \<Rightarrow> 64 word \<Rightarrow> 64 word \<Rightarrow> (64 word \<times> heap_state) option" where
  "mm_realloc s ptr sz =
     (if ptr = 0 then mm_malloc s sz
      else if sz = 0 then map_option (Pair 0) (mm_free s ptr)
      else
        (let new_ptr = ptr;
             old_size = GET_SIZE s (HDRP ptr);
             old_prev_alloc = GET_PREV_ALLOC s (HDRP ptr);
             sz = round_size sz;
             next_ptr = NEXT_BLOCK s ptr;
             next_alloc = GET_ALLOC s (HDRP next_ptr);
             next_size = GET_SIZE s (HDRP next_ptr)
         in if sz = old_size then Some (ptr, s)
            else if sz > old_size then
              (if next_alloc = 0 \<and> next_size + old_size > sz then
                 (let s1 = remove_block s next_ptr;
                      s2 = PUT s1 (HDRP ptr) (PACK (next_size + old_size) old_prev_alloc 1);
                      next_ptr = NEXT_BLOCK s2 ptr;
                      next_size = GET_SIZE s2 (HDRP next_ptr);
                      s3 = PUT s2 (HDRP (NEXT_BLOCK s2 ptr)) (PACK next_size 2 1)
                  in Some (new_ptr, s3))
               else
                 (case mm_malloc s sz of
                    None \<Rightarrow> None
                  | Some (new_ptr, s1) \<Rightarrow>
                      if new_ptr = 0 then Some (0, s1)
                      else map_option (Pair new_ptr) (mm_free (memcpy s1 new_ptr ptr sz) ptr)))
            else if False \<and> next_alloc = 0 then
              (if old_size - sz > push_bit 30 1 then
                 (let s1 = PUT s (HDRP ptr) (PACK sz (GET_PREV_ALLOC s (HDRP ptr)) 1);
                      split_ptr = NEXT_BLOCK s1 ptr;
                      s2 = PUT s1 (HDRP split_ptr) (PACK (old_size - sz) 2 1)
                  in map_option (Pair new_ptr) (mm_free s2 split_ptr))
               else Some (new_ptr, s))
            else Some (new_ptr, s)))"

section \<open>Sequences of calls\<close>

text \<open>
  A client of the allocator issues the four public operations one after the other.  A
  run threads the state through a list of requests and collects what each call returned.
\<close>

datatype request = Init | Malloc "64 word" | Free "64 word" | Realloc "64 word" "64 word"

datatype reply = Status int | Address "64 word" | Returned

fun apply_request :: "heap_state \<Rightarrow> request \<Rightarrow> (reply \<times> heap_state) option" where
  "apply_request s Init = map_option (map_prod Status id) (mm_init s)"
| "apply_request s (Malloc n) = map_option (map_prod Address id) (mm_malloc s n)"
| "apply_request s (Free p) = map_option (Pair Returned) (mm_free s p)"
| "apply_request s (Realloc p n) = map_option (map_prod Address id) (mm_realloc s p n)"

fun run :: "heap_state \<Rightarrow> request list \<Rightarrow> (reply list \<times> heap_state) option" where
  "run s [] = Some ([], s)"
| "run s (r # rs) =
     (case apply_request s r of
        None \<Rightarrow> None
      | Some (x, s') \<Rightarrow> map_option (map_prod ((#) x) id) (run s' rs))"

section \<open>Concrete heaps\<close>

text \<open>
  A concrete memory is a finite table of the words written so far, every other address
  holding zero.  \<open>store\<close> overwrites the entry of an address or appends a new one, so a
  state reached by running the code from a concrete state is again such a table.
\<close>

fun store :: "64 word \<Rightarrow> 64 word \<Rightarrow> (64 word \<times> 64 word) list \<Rightarrow> (64 word \<times> 64 word) list" where
  "store p v [] = [(p, v)]"
| "store p v ((k, w) # kvs) = (if k = p then (p, v) # kvs else (k, w) # store p v kvs)"

fun fetch :: "(64 word \<times> 64 word) list \<Rightarrow> 64 word \<Rightarrow> 64 word" where
  "fetch [] a = 0"
| "fetch ((k, w) # kvs) a = (if k = a then w else fetch kvs a)"

definition heap :: "(64 word \<times> 64 word) list \<Rightarrow> 64 word \<Rightarrow> 64 word \<Rightarrow> 64 word \<Rightarrow> 64 word
    \<Rightarrow> 64 word \<Rightarrow> 64 word \<Rightarrow> heap_state" where
  "heap kvs hs fs hp he brk mx =
     \<lparr>mem = fetch kvs, heap_start = hs, free_start = fs, heap_prologue = hp, heap_epilogue = he,
      mem_brk = brk, mem_max_addr = mx\<rparr>"

text \<open>
  The region before \<open>mm_init\<close>: nothing written, the break at address \<open>65536\<close> (a
  multiple of 16, as a region obtained from the C library is), room for one megabyte.
\<close>

definition fresh :: heap_state where
  "fresh = heap [] 0 0 0 0 65536 1048576"

text \<open>
  The states that the calls below reach from \<open>fresh\<close>, written out.
\<close>

text \<open>After \<open>mm_init\<close> and \<open>mm_malloc(100)\<close>: one allocated block of 128 bytes at \<open>65688\<close>, the rest of the first chunk free.\<close>

definition heap_large_block :: heap_state where
  "heap_large_block =
     heap
      [(65536, 0), (65544, 0), (65552, 0), (65560, 0), (65568, 0), (65576, 0),
       (65584, 0), (65592, 0), (65600, 65816), (65608, 0), (65616, 0), (65624, 0),
       (65632, 0), (65640, 0), (65648, 0), (65656, 0), (65664, 19), (65672, 19),
       (65680, 131), (65928, 130), (65936, 1), (65688, 0), (65696, 0),
       (65808, 130), (65816, 0), (65824, 0)]
      65688 65536 65672 65936 65944 1048576"

text \<open>After \<open>mm_init\<close> and \<open>mm_malloc(1)\<close>: an allocated block of 64 bytes at \<open>65688\<close>, followed by a free block of 192 bytes.\<close>

definition heap_small_block :: heap_state where
  "heap_small_block =
     heap
      [(65536, 0), (65544, 0), (65552, 0), (65560, 0), (65568, 0), (65576, 0),
       (65584, 0), (65592, 0), (65600, 65752), (65608, 0), (65616, 0), (65624, 0),
       (65632, 0), (65640, 0), (65648, 0), (65656, 0), (65664, 19), (65672, 19),
       (65680, 67), (65928, 194), (65936, 1), (65688, 0), (65696, 0),
       (65744, 194), (65752, 0), (65760, 0)]
      65688 65536 65672 65936 65944 1048576"

text \<open>The same two calls on a region with no room beyond the first chunk.\<close>

definition heap_exhausted :: heap_state where
  "heap_exhausted =
     heap
      [(65536, 0), (65544, 0), (65552, 0), (65560, 0), (65568, 0), (65576, 0),
       (65584, 0), (65592, 0), (65600, 65752), (65608, 0), (65616, 0), (65624, 0),
       (65632, 0), (65640, 0), (65648, 0), (65656, 0), (65664, 19), (65672, 19),
       (65680, 67), (65928, 194), (65936, 1), (65688, 0), (65696, 0),
       (65744, 194), (65752, 0), (65760, 0)]
      65688 65536 65672 65936 65944 65944"


text \<open>After \<open>mm_malloc(2^64 - 1)\<close>, \<open>mm_malloc(200)\<close> and \<open>mm_free\<close> of the first.\<close>

definition heap_clobbered :: heap_state where
  "heap_clobbered =
     heap
      [(65536, 0), (65544, 0), (65552, 0), (65560, 0), (65568, 0), (65576, 65688),
       (65584, 0), (65592, 0), (65600, 0), (65608, 0), (65616, 0), (65624, 0),
       (65632, 0), (65640, 0), (65648, 0), (65656, 0), (65664, 19), (65672, 19),
       (65680, 18), (65928, 242), (65936, 3), (65688, 0), (65696, 0), (65704, 0),
       (65712, 0)]
      65688 65536 65672 65936 65944 1048576"

text \<open>After \<open>mm_malloc(2^64 - 20)\<close> and \<open>mm_free\<close> of its result.\<close>

definition heap_looped :: heap_state where
  "heap_looped =
     heap
      [(65536, 0), (65544, 0), (65552, 0), (65560, 0), (65568, 0), (65576, 0),
       (65584, 0), (65592, 0), (65600, 0), (65608, 65688), (65616, 0), (65624, 0),
       (65632, 0), (65640, 0), (65648, 0), (65656, 0), (65664, 19), (65672, 19),
       (65680, 258), (65928, 258), (65936, 1), (65688, 65688), (65696, 65688)]
      65688 65536 65672 65936 65944 1048576"

text \<open>The looped heap after two more allocations of one byte and \<open>mm_free\<close> of the first.\<close>

definition heap_two_buckets :: heap_state where
  "heap_two_buckets =
     heap
      [(65536, 0), (65544, 0), (65552, 0), (65560, 0), (65568, 0), (65576, 0),
       (65584, 0), (65592, 65688), (65600, 65816), (65608, 65688), (65616, 0),
       (65624, 0), (65632, 0), (65640, 0), (65648, 0), (65656, 0), (65664, 19),
       (65672, 19), (65680, 66), (65928, 130), (65936, 1), (65688, 0), (65696, 0),
       (65744, 65), (65752, 0), (65760, 0), (65808, 130), (65816, 0), (65824, 0),
       (65736, 66)]
      65688 65536 65672 65936 65944 1048576"

text \<open>
  After \<open>mm_init\<close>, \<open>mm_malloc(1)\<close>, \<open>mm_malloc(2^64 - 20)\<close>, whose size rounds to 0 and
  which returns the free block at \<open>65752\<close> without unlinking it, and \<open>mm_free(65752)\<close>:
  the free block at \<open>65752\<close> is the root of bucket 8 and both its links point to itself.
\<close>

definition heap_self_linked :: heap_state where
  "heap_self_linked =
     heap
      [(65536, 0), (65544, 0), (65552, 0), (65560, 0), (65568, 0), (65576, 0),
       (65584, 0), (65592, 0), (65600, 65752), (65608, 0), (65616, 0), (65624, 0),
       (65632, 0), (65640, 0), (65648, 0), (65656, 0), (65664, 19), (65672, 19),
       (65680, 67), (65928, 194), (65936, 1), (65688, 0), (65696, 0),
       (65744, 194), (65752, 65752), (65760, 65752)]
      65688 65536 65672 65936 65944 1048576"

text \<open>
  The self-linked heap after \<open>mm_malloc(8)\<close>, which returns \<open>65752\<close>: the block is
  allocated, but it is still the root of bucket 8, and \<open>add_block\<close> has linked the free
  remainder at \<open>65816\<close> behind it, through the first word of its payload.
\<close>

definition heap_linked_payload :: heap_state where
  "heap_linked_payload =
     heap
      [(65536, 0), (65544, 0), (65552, 0), (65560, 0), (65568, 0), (65576, 0),
       (65584, 0), (65592, 0), (65600, 65752), (65608, 0), (65616, 0), (65624, 0),
       (65632, 0), (65640, 0), (65648, 0), (65656, 0), (65664, 19), (65672, 19),
       (65680, 67), (65928, 130), (65936, 1), (65688, 0), (65696, 0),
       (65744, 67), (65752, 65816), (65760, 0), (65808, 130), (65816, 0),
       (65824, 65752)]
      65688 65536 65672 65936 65944 1048576"

section \<open>The free lists as lists\<close>

text \<open>
  Addresses as natural numbers, so that the order and the distance of the nodes of a list
  are plain arithmetic; \<open>W\<close> turns such an address into the word the code uses.
\<close>

abbreviation W :: "nat \<Rightarrow> 64 word" where
  "W \<equiv> of_nat"


text \<open>
  A stretch of a doubly linked list: the nodes \<open>xs\<close>, whose first node points back to
  \<open>q\<close> and whose last node points on to \<open>n\<close>.  The link to the next node is the
  word at the node, the link to the previous node the word after it, as
  \<open>NEXT_ADDRESS\<close> and \<open>PREV_ADDRESS\<close> have them.
\<close>

fun hdw :: "nat list \<Rightarrow> 64 word \<Rightarrow> 64 word" where
  "hdw [] n = n"
| "hdw (x # xs) n = W x"

definition lastw :: "64 word \<Rightarrow> nat list \<Rightarrow> 64 word" where
  "lastw q xs = (if xs = [] then q else W (last xs))"

fun seg :: "heap_state \<Rightarrow> 64 word \<Rightarrow> 64 word \<Rightarrow> nat list \<Rightarrow> bool" where
  "seg s q n [] = True"
| "seg s q n (x # xs) =
     (GET s (W (x + 8)) = q \<and> GET s (W x) = hdw xs n \<and> seg s (W x) n xs)"


text \<open>Ascending addresses, at least two words apart: no two nodes share a link word.\<close>

definition spaced :: "nat list \<Rightarrow> bool" where
  "spaced xs = sorted_wrt (\<lambda>x y. x + 16 \<le> y) xs"


section \<open>Running the code on a concrete heap\<close>

text \<open>
  The definitions are unfolded only on a state that is written out, so that the simplifier
  computes a call step by step, the way the program runs.
\<close>

lemma fetch_store: "fetch (store p v kvs) = (fetch kvs)(p := v)"
  by (induction kvs) (auto simp: fun_eq_iff)

lemmas macro_defs = WSIZE_def DWORD_def CHUNKSIZE_def MAX_LISTS_def PACK_def GET_def PUT_def
  GET_SIZE_def GET_PREV_ALLOC_def GET_ALLOC_def NEXT_ADDRESS_def PREV_ADDRESS_def HDRP_def FTRP_def
  NEXT_BLOCK_def PREV_BLOCK_def NEXT_FLIST_ADDRESS_def PREV_FLIST_ADDRESS_def GET_ROOT_def SET_ROOT_def

lemmas on_state =
  mem_sbrk_def [where s = "\<lparr>mem = m, heap_start = hs, free_start = fs, heap_prologue = hp, heap_epilogue = he, mem_brk = brk, mem_max_addr = mx\<rparr>"]
  memcpy_def [where s = "\<lparr>mem = m, heap_start = hs, free_start = fs, heap_prologue = hp, heap_epilogue = he, mem_brk = brk, mem_max_addr = mx\<rparr>"]
  remove_block_def [where s = "\<lparr>mem = m, heap_start = hs, free_start = fs, heap_prologue = hp, heap_epilogue = he, mem_brk = brk, mem_max_addr = mx\<rparr>"]
  add_block_def [where s = "\<lparr>mem = m, heap_start = hs, free_start = fs, heap_prologue = hp, heap_epilogue = he, mem_brk = brk, mem_max_addr = mx\<rparr>"]
  add_block_walk.simps [where s = "\<lparr>mem = m, heap_start = hs, free_start = fs, heap_prologue = hp, heap_epilogue = he, mem_brk = brk, mem_max_addr = mx\<rparr>"]
  coalesce_def [where s = "\<lparr>mem = m, heap_start = hs, free_start = fs, heap_prologue = hp, heap_epilogue = he, mem_brk = brk, mem_max_addr = mx\<rparr>"]
  extend_heap_def [where s = "\<lparr>mem = m, heap_start = hs, free_start = fs, heap_prologue = hp, heap_epilogue = he, mem_brk = brk, mem_max_addr = mx\<rparr>"]
  find_fit_def [where s = "\<lparr>mem = m, heap_start = hs, free_start = fs, heap_prologue = hp, heap_epilogue = he, mem_brk = brk, mem_max_addr = mx\<rparr>"]
  find_fit_scan.simps [where s = "\<lparr>mem = m, heap_start = hs, free_start = fs, heap_prologue = hp, heap_epilogue = he, mem_brk = brk, mem_max_addr = mx\<rparr>"]
  find_fit_lists.simps [where s = "\<lparr>mem = m, heap_start = hs, free_start = fs, heap_prologue = hp, heap_epilogue = he, mem_brk = brk, mem_max_addr = mx\<rparr>"]
  place_def [where s = "\<lparr>mem = m, heap_start = hs, free_start = fs, heap_prologue = hp, heap_epilogue = he, mem_brk = brk, mem_max_addr = mx\<rparr>"]
  mm_init_def [where s = "\<lparr>mem = m, heap_start = hs, free_start = fs, heap_prologue = hp, heap_epilogue = he, mem_brk = brk, mem_max_addr = mx\<rparr>"]
  mm_init_loop.simps [where s = "\<lparr>mem = m, heap_start = hs, free_start = fs, heap_prologue = hp, heap_epilogue = he, mem_brk = brk, mem_max_addr = mx\<rparr>"]
  mm_malloc_def [where s = "\<lparr>mem = m, heap_start = hs, free_start = fs, heap_prologue = hp, heap_epilogue = he, mem_brk = brk, mem_max_addr = mx\<rparr>"]
  mm_free_def [where s = "\<lparr>mem = m, heap_start = hs, free_start = fs, heap_prologue = hp, heap_epilogue = he, mem_brk = brk, mem_max_addr = mx\<rparr>"]
  mm_realloc_def [where s = "\<lparr>mem = m, heap_start = hs, free_start = fs, heap_prologue = hp, heap_epilogue = he, mem_brk = brk, mem_max_addr = mx\<rparr>"]
  for m hs fs hp he brk mx

lemmas get_list_loop_num =
  get_list_loop.simps [where sz = 0] get_list_loop.simps [where sz = "numeral n"] for n

lemmas ev = heap_def fetch_store [symmetric] macro_defs on_state Let_def get_list_def
  get_list_loop_num round_size_def extend_bytes_def

lemma run_append:
  "run s xs = Some (rs, s') \<Longrightarrow> run s' ys = Some (rs', s'') \<Longrightarrow>
   run s (xs @ ys) = Some (rs @ rs', s'')"
proof (induction xs arbitrary: s rs)
  case Nil
  then show ?case by simp
next
  case (Cons x xs)
  from Cons.prems(1) obtain r s1 rs1 where
    a: "apply_request s x = Some (r, s1)" and b: "run s1 xs = Some (rs1, s')" and c: "rs = r # rs1"
    by (auto split: option.splits)
  from Cons.IH [OF b Cons.prems(2)] a c show ?case by simp
qed

lemma heap_large_block_reached:
  "run fresh [Init, Malloc 100] = Some ([Status 0, Address 65688], heap_large_block)"
  by (simp add: fresh_def heap_large_block_def ev cong: let_weak_cong)

lemma heap_small_block_reached:
  "run fresh [Init, Malloc 1] = Some ([Status 0, Address 65688], heap_small_block)"
  by (simp add: fresh_def heap_small_block_def ev cong: let_weak_cong)

lemma heap_exhausted_reached:
  "run (heap [] 0 0 0 0 65536 65944) [Init, Malloc 1] =
     Some ([Status 0, Address 65688], heap_exhausted)"
  by (simp add: heap_exhausted_def ev cong: let_weak_cong)


lemma heap_clobbered_reached:
  "run fresh [Init, Malloc 18446744073709551615, Malloc 200, Free 65688] =
     Some ([Status 0, Address 65688, Address 65704, Returned], heap_clobbered)"
  by (simp add: fresh_def heap_clobbered_def ev cong: let_weak_cong)

lemma heap_looped_reached:
  "run fresh [Init, Malloc 18446744073709551596, Free 65688] =
     Some ([Status 0, Address 65688, Returned], heap_looped)"
  by (simp add: fresh_def heap_looped_def ev cong: let_weak_cong)

lemma heap_two_buckets_reached:
  "run heap_looped [Malloc 1, Malloc 1, Free 65688] =
     Some ([Address 65688, Address 65752, Returned], heap_two_buckets)"
  by (simp add: heap_looped_def heap_two_buckets_def ev cong: let_weak_cong)

lemma heap_self_linked_reached:
  "run heap_small_block [Malloc 18446744073709551596, Free 65752] =
     Some ([Address 65752, Returned], heap_self_linked)"
  by (simp add: heap_small_block_def heap_self_linked_def ev cong: let_weak_cong)

section \<open>Header words\<close>











lemma GET_PUT: "GET (PUT s p v) q = (if q = p then v else GET s q)"
  by (simp add: GET_def PUT_def)



section \<open>The size class of a block\<close>

lemma highest_set_bit_index_bounds:
  "0 < n \<Longrightarrow> 2 ^ highest_set_bit_index n \<le> n \<and> n < 2 ^ (highest_set_bit_index n + 1)"
proof (induction n rule: highest_set_bit_index.induct)
  case (1 n)
  show ?case
  proof (cases "n < 2")
    case True
    with 1 show ?thesis by (simp add: highest_set_bit_index.simps)
  next
    case False
    then have "0 < n div 2" by simp
    define h where "h = (2::nat) ^ highest_set_bit_index (n div 2)"
    from 1 False \<open>0 < n div 2\<close> have "h \<le> n div 2 \<and> n div 2 < 2 * h"
      by (simp add: h_def)
    then have "2 * h \<le> n \<and> n < 2 * (2 * h)"
      by presburger
    with False show ?thesis by (simp add: highest_set_bit_index.simps [of n] h_def)
  qed
qed

lemma highest_set_bit_index_unique:
  assumes "2 ^ k \<le> n" "n < 2 ^ (k + 1)"
  shows "highest_set_bit_index n = k"
proof -
  have "(0::nat) < 2 ^ k" by simp
  with assms have "0 < n" by linarith
  from highest_set_bit_index_bounds [OF this] assms
  have "(2::nat) ^ k < 2 ^ (highest_set_bit_index n + 1)"
    "(2::nat) ^ highest_set_bit_index n < 2 ^ (k + 1)"
    by linarith+
  then have "k < highest_set_bit_index n + 1" "highest_set_bit_index n < k + 1"
    by (simp_all only: power_strict_increasing_iff [of "2::nat"] one_less_numeral_iff semiring_norm)
  then show ?thesis by simp
qed

lemma clear_step:
  "(s AND NOT (mask k)) AND NOT (2 ^ k) = (s AND NOT (mask (Suc k)) :: 64 word)"
  by (rule bit_eqI) (auto simp: bit_simps less_Suc_eq)

lemma and_not_mask_zero_iff: "(s AND NOT (mask k) = 0) = (unat (s :: 64 word) < 2 ^ k)"
proof -
  have "(s AND NOT (mask k) = 0) = (s AND mask k = s)"
    by (auto simp: bit_eq_iff bit_simps)
  also have "\<dots> = (uint s < 2 ^ k)" by (rule mask_eq_iff)
  also have "\<dots> = (int (unat s) < int (2 ^ k))" by simp
  also have "\<dots> = (unat s < 2 ^ k)" by (simp only: of_nat_less_iff)
  finally show ?thesis .
qed

text \<open>
  After \<open>k\<close> rounds the loop of \<open>get_list\<close> has cleared the \<open>k\<close> lowest bits of
  the size it started from; it stops at the first \<open>k\<close> that clears them all, or at 15.
\<close>

lemma get_list_loop_eq:
  "k \<le> 15 \<Longrightarrow> get_list_loop (s AND NOT (mask k)) k =
     (if unat s < 2 ^ k then k else min (highest_set_bit_index (unat s) + 1) 15)"
proof (induction "15 - k" arbitrary: k)
  case 0
  then have k: "k = 15" by simp
  show ?case
  proof (cases "unat s < 2 ^ k")
    case True
    then show ?thesis by (simp add: get_list_loop.simps [of _ 15] k MAX_LISTS_def)
  next
    case False
    then have "2 ^ 15 \<le> unat s" by (simp add: k)
    moreover have "0 < unat s" using False by (cases "unat s = 0") simp_all
    ultimately have "(2::nat) ^ 15 < 2 ^ (highest_set_bit_index (unat s) + 1)"
      using highest_set_bit_index_bounds [of "unat s"] by linarith
    then have "15 < highest_set_bit_index (unat s) + 1"
      by (simp only: power_strict_increasing_iff [of "2::nat"] one_less_numeral_iff semiring_norm)
    with False show ?thesis by (simp add: get_list_loop.simps [of _ 15] k MAX_LISTS_def)
  qed
next
  case (Suc d)
  then have k: "k < 15" "d = 15 - Suc k" "Suc k \<le> 15" by simp_all
  note IH = Suc.hyps(1) [OF k(2) k(3)]
  show ?case
  proof (cases "unat s < 2 ^ k")
    case True
    then have "s AND NOT (mask k) = 0" by (simp add: and_not_mask_zero_iff)
    with True show ?thesis by (simp add: get_list_loop.simps [of _ k])
  next
    case False
    then have nz: "s AND NOT (mask k) \<noteq> 0" by (simp add: and_not_mask_zero_iff)
    then have "get_list_loop (s AND NOT (mask k)) k =
        get_list_loop (s AND NOT (mask (Suc k))) (Suc k)"
      using k(1)
      by (subst get_list_loop.simps) (simp add: clear_step word_greater_zero_iff MAX_LISTS_def)
    also note IH
    finally have e: "get_list_loop (s AND NOT (mask k)) k =
      (if unat s < 2 ^ Suc k then Suc k else min (highest_set_bit_index (unat s) + 1) 15)" .
    show ?thesis
    proof (cases "unat s < 2 ^ Suc k")
      case True
      with False have "highest_set_bit_index (unat s) = k"
        by (intro highest_set_bit_index_unique) simp_all
      with e True False k show ?thesis by simp
    next
      case F2: False
      with e False show ?thesis by simp
    qed
  qed
qed

text \<open>
  Claim C3.  For every size of at least 1, the bucket that the bit-clearing loop of
  \<open>get_list\<close> computes is the closed form of the specification,
  \<open>min (floor (log2 size) + 1) 15\<close>.
\<close>

theorem get_list_closed_form:
  "sz \<noteq> 0 \<Longrightarrow> get_list sz = classify (unat sz)"
  using get_list_loop_eq [of 0 sz]
  by (simp add: get_list_def classify_def unat_gt_0 unat_eq_zero MAX_LISTS_def)

theorem get_list_closed_form_witness:
  "(64 :: 64 word) \<noteq> 0 \<and> get_list 64 = classify (unat (64 :: 64 word)) \<and> get_list 64 = 7"
  using get_list_closed_form [of 64]
  by (simp add: get_list_def get_list_loop_num MAX_LISTS_def)

section \<open>Resizing a block\<close>

text \<open>
  Claim C4.  For an allocated block \<open>ptr\<close> and a request of at least one byte whose rounded
  size is strictly smaller than the size of the block, \<open>mm_realloc\<close> returns \<open>ptr\<close>
  and changes nothing: not the header of the block and not the free lists.  The branch
  that would split the block is never taken.
\<close>

theorem realloc_shrink_is_noop:
  assumes "ptr \<noteq> 0" "n \<noteq> 0" "round_size n < GET_SIZE s (HDRP ptr)"
  shows "mm_realloc s ptr n = Some (ptr, s)"
proof -
  from assms(3) have "round_size n \<noteq> GET_SIZE s (HDRP ptr)"
    "\<not> GET_SIZE s (HDRP ptr) < round_size n"
    by auto
  with assms(1,2) show ?thesis by (simp add: mm_realloc_def Let_def)
qed

theorem realloc_shrink_is_noop_witness:
  "(65688 :: 64 word) \<noteq> 0 \<and> (1 :: 64 word) \<noteq> 0
    \<and> round_size 1 < GET_SIZE heap_large_block (HDRP 65688)
    \<and> mm_realloc heap_large_block 65688 1 = Some (65688, heap_large_block)"
proof -
  have h: "round_size 1 < GET_SIZE heap_large_block (HDRP 65688)"
    by (simp add: heap_large_block_def heap_def round_size_def macro_defs)
  from realloc_shrink_is_noop [of 65688 1 heap_large_block, OF _ _ h] h show ?thesis
    by simp
qed

lemma mm_malloc_refused:
  assumes "sz \<noteq> 0"
    and "find_fit s (round_size sz) = Some 0"
    and "mem_sbrk s (extend_bytes (max (round_size sz) CHUNKSIZE div WSIZE)) = (- 1, s)"
  shows "mm_malloc s sz = Some (0, s)"
  using assms by (simp add: mm_malloc_def extend_heap_def Let_def)

text \<open>
  Claim C8.  A growing \<open>mm_realloc\<close> that cannot absorb the successor allocates a new
  block.  When that allocation fails (no free block fits and the backing region refuses
  to grow), \<open>mm_realloc\<close> returns \<open>NULL\<close> and the whole state, the block \<open>ptr\<close>
  with its header and contents included, is as it was before the call.
\<close>

theorem realloc_failure_leaves_heap:
  assumes "ptr \<noteq> 0" "n \<noteq> 0"
    and "GET_SIZE s (HDRP ptr) < round_size n"
    and "\<not> (GET_ALLOC s (HDRP (NEXT_BLOCK s ptr)) = 0 \<and>
            round_size n < GET_SIZE s (HDRP (NEXT_BLOCK s ptr)) + GET_SIZE s (HDRP ptr))"
    and "find_fit s (round_size (round_size n)) = Some 0"
    and "mem_sbrk s (extend_bytes (max (round_size (round_size n)) CHUNKSIZE div WSIZE)) = (- 1, s)"
  shows "mm_malloc s (round_size n) = Some (0, s) \<and> mm_realloc s ptr n = Some (0, s)"
proof -
  from assms(3) have nz: "round_size n \<noteq> 0" by (metis word_not_simps(1))
  have m: "mm_malloc s (round_size n) = Some (0, s)"
    by (rule mm_malloc_refused [OF nz assms(5) assms(6)])
  from assms(3) have ne: "round_size n \<noteq> GET_SIZE s (HDRP ptr)" by auto
  show ?thesis
    using assms(1-4) m ne by (auto simp add: mm_realloc_def Let_def)
qed

theorem realloc_failure_leaves_heap_witness:
  "(65688 :: 64 word) \<noteq> 0 \<and> (1000 :: 64 word) \<noteq> 0
    \<and> GET_SIZE heap_exhausted (HDRP 65688) < round_size 1000
    \<and> \<not> (GET_ALLOC heap_exhausted (HDRP (NEXT_BLOCK heap_exhausted 65688)) = 0 \<and>
            round_size 1000 < GET_SIZE heap_exhausted (HDRP (NEXT_BLOCK heap_exhausted 65688))
              + GET_SIZE heap_exhausted (HDRP 65688))
    \<and> find_fit heap_exhausted (round_size (round_size 1000)) = Some 0
    \<and> mem_sbrk heap_exhausted
          (extend_bytes (max (round_size (round_size 1000)) CHUNKSIZE div WSIZE))
        = (- 1, heap_exhausted)
    \<and> mm_realloc heap_exhausted 65688 1000 = Some (0, heap_exhausted)"
proof -
  have h3: "GET_SIZE heap_exhausted (HDRP 65688) < round_size 1000"
    by (simp add: heap_exhausted_def heap_def round_size_def macro_defs)
  have h4: "\<not> (GET_ALLOC heap_exhausted (HDRP (NEXT_BLOCK heap_exhausted 65688)) = 0 \<and>
            round_size 1000 < GET_SIZE heap_exhausted (HDRP (NEXT_BLOCK heap_exhausted 65688))
              + GET_SIZE heap_exhausted (HDRP 65688))"
    by (simp add: heap_exhausted_def heap_def round_size_def macro_defs)
  have h5: "find_fit heap_exhausted (round_size (round_size 1000)) = Some 0"
    by (simp add: heap_exhausted_def ev cong: let_weak_cong)
  have h6: "mem_sbrk heap_exhausted
      (extend_bytes (max (round_size (round_size 1000)) CHUNKSIZE div WSIZE))
      = (- 1, heap_exhausted)"
    by (simp add: heap_exhausted_def heap_def mem_sbrk_def round_size_def extend_bytes_def
        macro_defs)
  from realloc_failure_leaves_heap [of 65688 1000 heap_exhausted, OF _ _ h3 h4 h5 h6]
  show ?thesis using h3 h4 h5 h6 by simp
qed



text \<open>
  The headers alone do not say that the successor has left its bucket; that depends on
  the list it is linked into.  In \<open>heap_self_linked\<close> the free block at \<open>65752\<close> follows the
  block at \<open>65688\<close> and is linked to itself.  \<open>mm_realloc\<close> absorbs it, returning \<open>65688\<close>,
  and \<open>remove_block\<close>, which finds a predecessor and a successor, leaves the root of
  bucket 8 as it is: the root still names \<open>65752\<close>, now inside the allocated block.
\<close>

lemma realloc_grow_on_self_linked_list:
  "run fresh [Init, Malloc 1, Malloc 18446744073709551596, Free 65752] =
     Some ([Status 0, Address 65688, Address 65752, Returned], heap_self_linked)
   \<and> GET_SIZE heap_self_linked (HDRP 65688) < round_size 100
   \<and> GET_ALLOC heap_self_linked (HDRP (NEXT_BLOCK heap_self_linked 65688)) = 0
   \<and> round_size 100 < GET_SIZE heap_self_linked (HDRP (NEXT_BLOCK heap_self_linked 65688))
        + GET_SIZE heap_self_linked (HDRP 65688)
   \<and> map_option (\<lambda>(p, s'). (p, GET_SIZE s' (HDRP p), GET_ROOT s' (free_start s') 8))
        (mm_realloc heap_self_linked 65688 100) = Some (65688, 256, 65752)"
proof -
  have "map_option (\<lambda>(p, s'). (p, GET_SIZE s' (HDRP p), GET_ROOT s' (free_start s') 8))
        (mm_realloc heap_self_linked 65688 100) = Some (65688, 256, 65752)"
    by (simp add: heap_self_linked_def ev cong: let_weak_cong)
  moreover have "GET_SIZE heap_self_linked (HDRP 65688) < round_size 100
   \<and> GET_ALLOC heap_self_linked (HDRP (NEXT_BLOCK heap_self_linked 65688)) = 0
   \<and> round_size 100 < GET_SIZE heap_self_linked (HDRP (NEXT_BLOCK heap_self_linked 65688))
        + GET_SIZE heap_self_linked (HDRP 65688)"
    by (simp add: heap_self_linked_def heap_def round_size_def macro_defs)
  moreover have "run fresh [Init, Malloc 1, Malloc 18446744073709551596, Free 65752] =
     Some ([Status 0, Address 65688, Address 65752, Returned], heap_self_linked)"
    using run_append [OF heap_small_block_reached heap_self_linked_reached] by simp
  ultimately show ?thesis by simp
qed

section \<open>Requests whose rounding wraps around\<close>

text \<open>
  \<open>mm_malloc\<close> rounds a request of more than 32 bytes with
  \<open>DWORD * ((size + DWORD + (DWORD - 1)) / DWORD)\<close> in \<open>size_t\<close> arithmetic.  For the 31
  largest sizes the sum wraps around, and the rounded size is 16 or 0, below the smallest
  block the rest of the code can handle.  The theorems of this section run the code on
  such requests.
\<close>

lemma round_size_wraps:
  "round_size 18446744073709551615 = 16" "round_size 18446744073709551596 = 0"
  by (simp_all add: round_size_def DWORD_def)

text \<open>
  Claim C1 says that after every call no two neighbouring blocks are both free.  After
  \<open>mm_malloc(2^64 - 1)\<close>, which returns a block of 16 bytes at \<open>65688\<close>,
  \<open>mm_malloc(200)\<close>, which returns its neighbour \<open>65704\<close>, and \<open>mm_free(65688)\<close>,
  the first block of the heap is free and the header of its neighbour, overwritten
  by the list link that \<open>add_block\<close> stores in the freed block, says free as well.
\<close>

theorem adjacent_free_blocks_after_wrapped_request:
  "run fresh [Init, Malloc 18446744073709551615, Malloc 200, Free 65688] =
     Some ([Status 0, Address 65688, Address 65704, Returned], heap_clobbered)
   \<and> NEXT_BLOCK heap_clobbered (heap_prologue heap_clobbered) = 65688
   \<and> GET_ALLOC heap_clobbered (HDRP 65688) = 0
   \<and> NEXT_BLOCK heap_clobbered 65688 = 65704
   \<and> GET_ALLOC heap_clobbered (HDRP 65704) = 0"
proof -
  have "NEXT_BLOCK heap_clobbered (heap_prologue heap_clobbered) = 65688
   \<and> GET_ALLOC heap_clobbered (HDRP 65688) = 0
   \<and> NEXT_BLOCK heap_clobbered 65688 = 65704
   \<and> GET_ALLOC heap_clobbered (HDRP 65704) = 0"
    by (simp add: heap_clobbered_def heap_def macro_defs)
  with heap_clobbered_reached show ?thesis by simp
qed

text \<open>
  Claim C6 says that every bucket list is in strictly ascending address order.  After
  \<open>mm_malloc(2^64 - 20)\<close>, whose rounded size is 0 and which returns the free block
  \<open>65688\<close> without taking it out of its list, and \<open>mm_free(65688)\<close>, which adds it
  to the list a second time, bucket 9 starts at \<open>65688\<close> and the successor of that node
  is the node itself.
\<close>

theorem bucket_list_loops_after_wrapped_request:
  "run fresh [Init, Malloc 18446744073709551596, Free 65688] =
     Some ([Status 0, Address 65688, Returned], heap_looped)
   \<and> GET_ROOT heap_looped (free_start heap_looped) 9 = 65688
   \<and> NEXT_FLIST_ADDRESS heap_looped 65688 = 65688
   \<and> PREV_FLIST_ADDRESS heap_looped 65688 = 65688"
proof -
  have "GET_ROOT heap_looped (free_start heap_looped) 9 = 65688
   \<and> NEXT_FLIST_ADDRESS heap_looped 65688 = 65688
   \<and> PREV_FLIST_ADDRESS heap_looped 65688 = 65688"
    by (simp add: heap_looped_def heap_def macro_defs)
  with heap_looped_reached show ?thesis by simp
qed

lemma find_fit_scan_self_loop:
  assumes "ptr \<noteq> 0" "\<not> sz \<le> GET_SIZE s (HDRP ptr)" "NEXT_FLIST_ADDRESS s ptr = ptr"
  shows "find_fit_scan s sz ptr = None"
proof -
  have "\<not> (s' = s \<and> sz' = sz \<and> p = ptr)" if "find_fit_scan s' sz' p = Some y" for s' sz' p y
  proof (rule find_fit_scan.raw_induct
      [where P = "\<lambda>s' sz' p y. \<not> (s' = s \<and> sz' = sz \<and> p = ptr)", OF _ that])
    fix f s' sz' p y
    assume IH: "\<And>s' sz' p y. f s' sz' p = Some y \<Longrightarrow> \<not> (s' = s \<and> sz' = sz \<and> p = ptr)"
      and st: "(if p \<noteq> 0 then if sz' \<le> GET_SIZE s' (HDRP p) then Some p
                 else f s' sz' (NEXT_FLIST_ADDRESS s' p) else Some 0) = Some y"
    show "\<not> (s' = s \<and> sz' = sz \<and> p = ptr)"
    proof
      assume e: "s' = s \<and> sz' = sz \<and> p = ptr"
      with st assms have "f s sz ptr = Some y" by simp
      from IH [OF this] show False by simp
    qed
  qed
  then show ?thesis by (cases "find_fit_scan s sz ptr") auto
qed

text \<open>
  Claim C5 says that \<open>mm_malloc\<close> returns \<open>NULL\<close> only for a request of size 0 or when
  the region cannot grow, and a block otherwise.  In the looped heap a request of 300
  bytes, for which the region could grow, never returns: \<open>find_fit\<close> walks bucket 9,
  whose only node is too small and is its own successor.
\<close>

theorem malloc_never_returns_after_wrapped_request:
  "run fresh [Init, Malloc 18446744073709551596, Free 65688] =
     Some ([Status 0, Address 65688, Returned], heap_looped)
   \<and> fst (mem_sbrk heap_looped (extend_bytes (max (round_size 300) CHUNKSIZE div WSIZE))) \<noteq> - 1
   \<and> mm_malloc heap_looped 300 = None"
proof -
  have l: "find_fit_scan heap_looped 320 65688 = None"
    by (rule find_fit_scan_self_loop) (simp_all add: heap_looped_def heap_def macro_defs)
  have r: "GET_ROOT heap_looped (free_start heap_looped) 9 = 65688"
    by (simp add: heap_looped_def heap_def macro_defs)
  have g: "get_list 320 = 9"
    by (simp add: get_list_def get_list_loop_num MAX_LISTS_def)
  have "find_fit heap_looped 320 = None"
    unfolding find_fit_def g by (subst find_fit_lists.simps) (simp add: r l MAX_LISTS_def)
  then have "mm_malloc heap_looped 300 = None"
    by (simp add: mm_malloc_def round_size_def DWORD_def)
  moreover have
    "fst (mem_sbrk heap_looped (extend_bytes (max (round_size 300) CHUNKSIZE div WSIZE))) \<noteq> - 1"
    by (simp add: heap_looped_def heap_def mem_sbrk_def round_size_def extend_bytes_def macro_defs)
  ultimately show ?thesis using heap_looped_reached by simp
qed

text \<open>
  Claim C10 says that every free block is linked into the bucket of its current size and
  no other.  From the looped heap, two allocations of one byte and \<open>mm_free\<close> of the
  first leave the block \<open>65688\<close> free with 64 bytes, which is class 7, at the head of
  bucket 7 and still at the head of bucket 9.
\<close>

theorem block_in_two_buckets_after_wrapped_request:
  "run fresh [Init, Malloc 18446744073709551596, Free 65688, Malloc 1, Malloc 1, Free 65688] =
     Some ([Status 0, Address 65688, Returned, Address 65688, Address 65752, Returned],
       heap_two_buckets)
   \<and> GET_ALLOC heap_two_buckets (HDRP 65688) = 0
   \<and> get_list (GET_SIZE heap_two_buckets (HDRP 65688)) = 7
   \<and> GET_ROOT heap_two_buckets (free_start heap_two_buckets) 7 = 65688
   \<and> GET_ROOT heap_two_buckets (free_start heap_two_buckets) 9 = 65688"
proof -
  have "GET_ALLOC heap_two_buckets (HDRP 65688) = 0
   \<and> get_list (GET_SIZE heap_two_buckets (HDRP 65688)) = 7
   \<and> GET_ROOT heap_two_buckets (free_start heap_two_buckets) 7 = 65688
   \<and> GET_ROOT heap_two_buckets (free_start heap_two_buckets) 9 = 65688"
    by (simp add: heap_two_buckets_def heap_def macro_defs get_list_def get_list_loop_num)
  moreover have
    "run fresh [Init, Malloc 18446744073709551596, Free 65688, Malloc 1, Malloc 1, Free 65688] =
     Some ([Status 0, Address 65688, Returned, Address 65688, Address 65752, Returned],
       heap_two_buckets)"
    using run_append [OF heap_looped_reached heap_two_buckets_reached] by simp
  ultimately show ?thesis by simp
qed

text \<open>
  Claim C9 says that the first \<open>n\<close> bytes of a block obtained by \<open>mm_malloc(n)\<close> and
  filled with a pattern are still there after a successful \<open>mm_realloc\<close> to \<open>m \<ge> n\<close>
  bytes.  After \<open>mm_malloc(1)\<close>, \<open>mm_malloc(2^64 - 20)\<close> and \<open>mm_free\<close> of the address
  the latter returned, \<open>mm_malloc(8)\<close> returns \<open>65752\<close>, a block that the list of bucket 8
  still holds, in front of the free block that follows it.  Whatever pattern \<open>P\<close> is stored
  in the 8 bytes at \<open>65752\<close>, \<open>mm_realloc(65752, 100)\<close> absorbs the free successor,
  \<open>remove_block\<close> clears the forward link of the node before it, which is the first word
  of the payload, and the call returns \<open>65752\<close> with 0 in place of \<open>P\<close>.
\<close>

theorem resize_loses_content_after_wrapped_request:
  "run fresh [Init, Malloc 1, Malloc 18446744073709551596, Free 65752] =
     Some ([Status 0, Address 65688, Address 65752, Returned], heap_self_linked)
   \<and> mm_malloc heap_self_linked 8 = Some (65752, heap_linked_payload)
   \<and> (\<forall>P. GET (PUT heap_linked_payload 65752 P) 65752 = P)
   \<and> (\<forall>P. map_option (\<lambda>(q, s'). (q, GET s' q))
             (mm_realloc (PUT heap_linked_payload 65752 P) 65752 100) = Some (65752, 0))"
proof -
  have "run fresh [Init, Malloc 1, Malloc 18446744073709551596, Free 65752] =
     Some ([Status 0, Address 65688, Address 65752, Returned], heap_self_linked)"
    using run_append [OF heap_small_block_reached heap_self_linked_reached] by simp
  moreover have "mm_malloc heap_self_linked 8 = Some (65752, heap_linked_payload)"
    by (simp add: heap_self_linked_def heap_linked_payload_def ev cong: let_weak_cong)
  moreover have "\<forall>P. GET (PUT heap_linked_payload 65752 P) 65752 = P"
    by (simp add: GET_PUT)
  moreover have "\<forall>P. map_option (\<lambda>(q, s'). (q, GET s' q))
             (mm_realloc (PUT heap_linked_payload 65752 P) 65752 100) = Some (65752, 0)"
    by (simp add: heap_linked_payload_def ev cong: let_weak_cong)
  ultimately show ?thesis by simp
qed

section \<open>Alignment of the returned addresses\<close>

text \<open>
  Claim C2 says that every address returned is a multiple of 16.  On a region that starts
  at a multiple of 16 the first allocation returns \<open>65688\<close>, which is 8 modulo 16: the
  list roots and the prologue take 19 words, an odd number.
\<close>

theorem malloc_address_not_16_aligned:
  "unat (mem_brk fresh) mod 16 = 0
   \<and> run fresh [Init, Malloc 1] = Some ([Status 0, Address 65688], heap_small_block)
   \<and> unat (65688 :: 64 word) mod 16 = 8"
  using heap_small_block_reached by (simp add: fresh_def heap_def)

section \<open>Unlinking a node of a bucket list\<close>





lemma hdw_append [simp]: "hdw (xs @ ys) n = hdw xs (hdw ys n)"
  by (cases xs) simp_all

lemma lastw_simps [simp]:
  "lastw q [] = q" "lastw q (x # xs) = lastw (W x) xs" "lastw q (xs @ [x]) = W x"
  by (simp_all add: lastw_def)

lemma lastw_append [simp]: "lastw q (xs @ ys) = lastw (lastw q xs) ys"
  by (induction xs arbitrary: q) simp_all

lemma seg_append [simp]:
  "seg s q n (xs @ ys) = (seg s q (hdw ys n) xs \<and> seg s (lastw q xs) n ys)"
  by (induction xs arbitrary: q) auto


lemma spaced_simps [simp]:
  "spaced []" "spaced (x # xs) = ((\<forall>y \<in> set xs. x + 16 \<le> y) \<and> spaced xs)"
  "spaced (xs @ ys) = (spaced xs \<and> spaced ys \<and> (\<forall>x \<in> set xs. \<forall>y \<in> set ys. x + 16 \<le> y))"
  by (auto simp: spaced_def sorted_wrt_append)

text \<open>
  From here on sums and products of addresses are kept inside \<open>W\<close>, so that a word
  address is always \<open>W\<close> of one natural number.
\<close>

declare of_nat_add [simp del] of_nat_mult [simp del] of_nat_diff [simp del]

lemma W_arith [simp]:
  "W a + W b = W (a + b)" "W a * W b = W (a * b)"
  "W a + 8 = W (a + 8)" "W a + 16 = W (a + 16)" "W a * 8 = W (8 * a)" "8 * W a = W (8 * a)"
  by (simp_all add: of_nat_add of_nat_mult)

lemma W_minus [simp]:
  "8 \<le> a \<Longrightarrow> W a - 8 = W (a - 8)" "16 \<le> a \<Longrightarrow> W a - 16 = W (a - 16)"
  "b \<le> a \<Longrightarrow> W a - W b = W (a - b)"
  by (simp_all add: of_nat_diff)

lemma PUT_fields [simp]:
  "free_start (PUT s p v) = free_start s" "heap_epilogue (PUT s p v) = heap_epilogue s"
  "mem_brk (PUT s p v) = mem_brk s" "mem_max_addr (PUT s p v) = mem_max_addr s"
  "heap_start (PUT s p v) = heap_start s" "heap_prologue (PUT s p v) = heap_prologue s"
  by (simp_all add: PUT_def)






section \<open>Growing a block in place\<close>



end
